theory Spec2Isabelle
  imports Main "HOL-Library.Word"
begin

unbundle bit_operations_syntax

section \<open>controller-runtime client config: GetConfigWithContext\<close>

text \<open>
  \<^verbatim>\<open>rest.Config\<close> carries \<^verbatim>\<open>QPS float32\<close> and \<^verbatim>\<open>Burst int\<close>. The only float
  operations of \<^verbatim>\<open>GetConfigWithContext\<close> are the comparison \<^verbatim>\<open>cfg.QPS == 0.0\<close> and the
  assignment of the constant \<^verbatim>\<open>20.0\<close>, so a float32 is its IEEE-754 bit pattern: a value
  compares equal to \<^verbatim>\<open>0.0\<close> exactly when all bits but the sign bit are clear (\<^verbatim>\<open>+0\<close>
  and \<^verbatim>\<open>-0\<close>; a NaN never does), and \<^verbatim>\<open>20.0\<close> is \<^verbatim>\<open>0x41A00000\<close>.
  The fields of \<^verbatim>\<open>rest.Config\<close> the function never touches are the record's extension.
\<close>

type_synonym float32 = "32 word"

definition float32_eq_zero :: "float32 \<Rightarrow> bool" where
  "float32_eq_zero x \<longleftrightarrow> x AND 0x7FFFFFFF = 0"

definition float32_20 :: float32 where
  "float32_20 = 0x41A00000"

record rest_Config =
  Host :: string
  QPS :: float32
  Burst :: "64 word"

datatype load_error = LoadError string

text \<open>
  \<^verbatim>\<open>loadConfig\<close> reads flags, the environment and files; its result is the parameter
  \<open>loadConfig\<close>. The pointer \<^verbatim>\<open>cfg\<close> is updated in place and returned.
\<close>

definition GetConfigWithContext ::
  "(string \<Rightarrow> load_error + 'a rest_Config_scheme) \<Rightarrow> string \<Rightarrow> load_error + 'a rest_Config_scheme" where
  "GetConfigWithContext loadConfig context =
     (case loadConfig context of
        Inl err \<Rightarrow> Inl err
      | Inr cfg \<Rightarrow>
          let cfg1 = (if float32_eq_zero (QPS cfg) then cfg\<lparr>QPS := float32_20\<rparr> else cfg);
              cfg2 = (if Burst cfg1 = 0 then cfg1\<lparr>Burst := 30\<rparr> else cfg1)
          in Inr cfg2)"

lemma float32_20_not_zero: "\<not> float32_eq_zero float32_20"
  by (simp add: float32_eq_zero_def float32_20_def)

lemma float32_zero_not_20: "float32_eq_zero x \<Longrightarrow> x \<noteq> float32_20"
  using float32_20_not_zero by blast

text \<open>
  C8. When loading succeeds with \<open>cfg\<close>, \<^verbatim>\<open>GetConfigWithContext\<close> returns a config whose
  QPS is 20.0 if the loaded QPS equals 0.0 and the loaded QPS otherwise, whose Burst is 30
  if the loaded Burst is 0 and the loaded Burst otherwise; a field is changed exactly when
  it was zero, and every other field is returned as loaded. When loading fails the error
  is returned and no config.
\<close>

theorem GetConfigWithContext_defaults:
  "(loadConfig context = Inr cfg \<longrightarrow>
      (\<exists>cfg'. GetConfigWithContext loadConfig context = Inr cfg' \<and>
         QPS cfg' = (if float32_eq_zero (QPS cfg) then float32_20 else QPS cfg) \<and>
         Burst cfg' = (if Burst cfg = 0 then 30 else Burst cfg) \<and>
         (QPS cfg' \<noteq> QPS cfg \<longleftrightarrow> float32_eq_zero (QPS cfg)) \<and>
         (Burst cfg' \<noteq> Burst cfg \<longleftrightarrow> Burst cfg = 0) \<and>
         Host cfg' = Host cfg \<and> rest_Config.more cfg' = rest_Config.more cfg)) \<and>
   (loadConfig context = Inl err \<longrightarrow> GetConfigWithContext loadConfig context = Inl err)"
  by (auto simp: GetConfigWithContext_def Let_def dest: float32_zero_not_20)

theorem GetConfigWithContext_defaults_witness:
  "GetConfigWithContext (\<lambda>c. Inr \<lparr>Host = ''https://10.0.0.1:6443'', QPS = 0x80000000, Burst = 0\<rparr>) ''''
     = Inr \<lparr>Host = ''https://10.0.0.1:6443'', QPS = float32_20, Burst = 30\<rparr> \<and>
   GetConfigWithContext (\<lambda>c. Inr \<lparr>Host = ''h'', QPS = 0x40A00000, Burst = 7\<rparr>) ''ctx''
     = Inr \<lparr>Host = ''h'', QPS = 0x40A00000, Burst = 7\<rparr> \<and>
   GetConfigWithContext (\<lambda>c. Inl (LoadError ''no kubeconfig'') :: load_error + rest_Config) ''''
     = Inl (LoadError ''no kubeconfig'')"
proof -
  let ?l1 = "\<lambda>c::string. Inr \<lparr>Host = ''https://10.0.0.1:6443'', QPS = 0x80000000, Burst = 0\<rparr>
               :: load_error + rest_Config"
  let ?l2 = "\<lambda>c::string. Inr \<lparr>Host = ''h'', QPS = 0x40A00000, Burst = 7\<rparr> :: load_error + rest_Config"
  let ?l3 = "\<lambda>c::string. Inl (LoadError ''no kubeconfig'') :: load_error + rest_Config"
  have z: "float32_eq_zero 0x80000000" "\<not> float32_eq_zero 0x40A00000"
    by (simp_all add: float32_eq_zero_def)
  from GetConfigWithContext_defaults
         [of ?l1 "''''" "\<lparr>Host = ''https://10.0.0.1:6443'', QPS = 0x80000000, Burst = 0\<rparr>"]
  have a: "GetConfigWithContext ?l1 '''' =
             Inr \<lparr>Host = ''https://10.0.0.1:6443'', QPS = float32_20, Burst = 30\<rparr>"
    using z by auto
  from GetConfigWithContext_defaults
         [of ?l2 "''ctx''" "\<lparr>Host = ''h'', QPS = 0x40A00000, Burst = 7\<rparr>"]
  have b: "GetConfigWithContext ?l2 ''ctx'' = Inr \<lparr>Host = ''h'', QPS = 0x40A00000, Burst = 7\<rparr>"
    using z by auto
  from GetConfigWithContext_defaults [of ?l3 "''''" _ "LoadError ''no kubeconfig''"]
  have c: "GetConfigWithContext ?l3 '''' = Inl (LoadError ''no kubeconfig'')"
    by simp
  from a b c show ?thesis by simp
qed

section \<open>The AlluxioRuntime reconciler\<close>

subsection \<open>Data\<close>

text \<open>
  A request names a resource by namespace and name. Errors follow the taxonomy of the
  object store; \<open>Wrap\<close> is \<^verbatim>\<open>errors.Wrap\<close>, which keeps the cause.
\<close>

type_synonym NamespacedName = "string \<times> string"

datatype error = NotFound | Conflict | Transient string | Permanent string | Wrap error string

text \<open>
  Modelled from the spec: the API types (\<^verbatim>\<open>api/v1alpha1\<close>) are not among the sources. The
  status of a runtime resource carries an optional field naming its bound engine kind once
  set, and the ports the runtime has recorded.
\<close>

record RuntimeStatus =
  BoundEngineKind :: "string option"
  RecordedPorts :: "nat list"

record AlluxioRuntime =
  Namespace :: string
  Name :: string
  Status :: RuntimeStatus

text \<open>
  \<^verbatim>\<open>cruntime.ReconcileRequestContext\<close> as \<^verbatim>\<open>Reconcile\<close> fills it; the handles
  (\<^verbatim>\<open>Context\<close>, \<^verbatim>\<open>Log\<close>, \<^verbatim>\<open>Recorder\<close>, \<^verbatim>\<open>Client\<close>) carry no data of their own.
\<close>

record ReconcileRequestContext =
  NamespacedName :: NamespacedName
  Category :: string
  RuntimeType :: string
  FinalizerName :: string
  Runtime :: "AlluxioRuntime option"
  EngineImpl :: string

text \<open>The constants of package \<^verbatim>\<open>common\<close> and of the controller package that
  \<^verbatim>\<open>Reconcile\<close> reads; their values are declared outside the sources, so they are a
  parameter.\<close>

record package_consts =
  AccelerateCategory :: string
  AlluxioRuntimeType :: string
  AlluxioEngineImpl :: string
  runtimeResourceFinalizerName :: string

record ctrl_Result =
  Requeue :: bool
  RequeueAfter :: int

definition empty_Result :: ctrl_Result where
  "empty_Result = \<lparr>Requeue = False, RequeueAfter = 0\<rparr>"

text \<open>
  \<^verbatim>\<open>RuntimeReconciler\<close>: the engines map and its mutex (\<open>True\<close> when locked); \<^verbatim>\<open>Scheme\<close>
  and the embedded generic reconciler are the record's extension.
\<close>

record 'e RuntimeReconciler =
  engines :: "string \<rightharpoonup> 'e"
  mutex :: bool

definition NewRuntimeReconciler :: "'z \<Rightarrow> ('e, 'z) RuntimeReconciler_scheme" where
  "NewRuntimeReconciler rest = \<lparr>engines = Map.empty, mutex = False, \<dots> = rest\<rparr>"

subsection \<open>Helpers declared outside the sources\<close>

text \<open>Modelled from the spec: \<^verbatim>\<open>utils.IgnoreNotFound\<close> is not among the sources.
  \<open>NotFound\<close> means the resource vanished and is not an error; every other error is kept.\<close>

fun IsNotFound :: "error \<Rightarrow> bool" where
  "IsNotFound NotFound = True"
| "IsNotFound (Wrap cause msg) = IsNotFound cause"
| "IsNotFound _ = False"

definition IgnoreNotFound :: "error \<Rightarrow> error option" where
  "IgnoreNotFound err = (if IsNotFound err then None else Some err)"

text \<open>Modelled from the spec: \<^verbatim>\<open>utils.RequeueIfError\<close> is not among the sources. It
  hands the error back to the work scheduler with an empty result.\<close>

definition RequeueIfError :: "error \<Rightarrow> ctrl_Result \<times> error option" where
  "RequeueIfError err = (empty_Result, Some err)"

text \<open>Modelled from the spec: how the work scheduler reads the outcome of a reconciliation
  (the scheduler is not among the sources). A failure is requeued with backoff; a success
  is requeued only when the result asks for it.\<close>

datatype requeue_decision = NoRequeue | RequeueWithBackoff | RequeueAfterDelay int

definition scheduler_decision :: "ctrl_Result \<times> error option \<Rightarrow> requeue_decision" where
  "scheduler_decision out =
     (case snd out of
        Some err \<Rightarrow> RequeueWithBackoff
      | None \<Rightarrow>
          if RequeueAfter (fst out) > 0 then RequeueAfterDelay (RequeueAfter (fst out))
          else if Requeue (fst out) then RequeueWithBackoff
          else NoRequeue)"

text \<open>Modelled from the spec: \<^verbatim>\<open>ddc.InferEngineImpl\<close> is not among the sources. The kind
  recorded in the status is authoritative; absence falls back to the default.\<close>

definition InferEngineImpl :: "RuntimeStatus \<Rightarrow> string \<Rightarrow> string" where
  "InferEngineImpl runtimeStatus defaultImpl =
     (case BoundEngineKind runtimeStatus of
        Some kind \<Rightarrow> kind
      | None \<Rightarrow> defaultImpl)"

subsection \<open>Reconcile\<close>

text \<open>
  \<^verbatim>\<open>Reconcile\<close> takes the reconciler and returns it with the result, so that every change
  to the engines map or the mutex would show. \<^verbatim>\<open>getRuntime\<close> (a read of the object store)
  and \<^verbatim>\<open>ReconcileInternal\<close> (the generic reconciler, which resolves the engine) are
  declared outside the sources and are parameters. Logging and time tracking are not
  modelled.
\<close>

definition Reconcile ::
  "package_consts \<Rightarrow>
   (('e, 'z) RuntimeReconciler_scheme \<Rightarrow> ReconcileRequestContext \<Rightarrow> error + AlluxioRuntime) \<Rightarrow>
   (('e, 'z) RuntimeReconciler_scheme \<Rightarrow> ReconcileRequestContext \<Rightarrow>
      (ctrl_Result \<times> error option) \<times> ('e, 'z) RuntimeReconciler_scheme) \<Rightarrow>
   ('e, 'z) RuntimeReconciler_scheme \<Rightarrow> NamespacedName \<Rightarrow>
   (ctrl_Result \<times> error option) \<times> ('e, 'z) RuntimeReconciler_scheme" where
  "Reconcile consts getRuntime ReconcileInternal r req =
     (let ctx = \<lparr>NamespacedName = req,
                 Category = AccelerateCategory consts,
                 RuntimeType = AlluxioRuntimeType consts,
                 FinalizerName = runtimeResourceFinalizerName consts,
                 Runtime = None,
                 EngineImpl = ''''\<rparr>
      in case getRuntime r ctx of
           Inl err \<Rightarrow>
             if IgnoreNotFound err = None then ((empty_Result, None), r)
             else (RequeueIfError (Wrap err ''Unable to get ddc runtime''), r)
         | Inr runtime \<Rightarrow>
             ReconcileInternal r
               (ctx\<lparr>Runtime := Some runtime,
                    EngineImpl := InferEngineImpl (Status runtime) (AlluxioEngineImpl consts)\<rparr>))"

subsection \<open>Properties of Reconcile\<close>

text \<open>
  C4. When loading the runtime fails with an error \<open>err\<close>: if \<open>err\<close> is NotFound,
  \<^verbatim>\<open>Reconcile\<close> returns the empty result and a nil error, which the scheduler does not
  requeue; otherwise it returns the empty result with a non-nil error (the load error,
  wrapped), which the scheduler requeues with backoff.
\<close>

theorem Reconcile_load_failure:
  assumes "getRuntime r
             \<lparr>NamespacedName = req, Category = AccelerateCategory consts,
              RuntimeType = AlluxioRuntimeType consts,
              FinalizerName = runtimeResourceFinalizerName consts,
              Runtime = None, EngineImpl = ''''\<rparr> = Inl err"
  shows "(IsNotFound err \<longrightarrow>
            fst (Reconcile consts getRuntime ReconcileInternal r req) = (empty_Result, None) \<and>
            scheduler_decision (fst (Reconcile consts getRuntime ReconcileInternal r req)) = NoRequeue) \<and>
         (\<not> IsNotFound err \<longrightarrow>
            fst (Reconcile consts getRuntime ReconcileInternal r req)
              = (empty_Result, Some (Wrap err ''Unable to get ddc runtime'')) \<and>
            scheduler_decision (fst (Reconcile consts getRuntime ReconcileInternal r req))
              = RequeueWithBackoff)"
  using assms
  by (simp add: Reconcile_def IgnoreNotFound_def RequeueIfError_def scheduler_decision_def
        empty_Result_def)

theorem Reconcile_load_failure_witness:
  "fst (Reconcile
          \<lparr>AccelerateCategory = ''Accelerate'', AlluxioRuntimeType = ''alluxio'',
           AlluxioEngineImpl = ''alluxio'',
           runtimeResourceFinalizerName = ''alluxio-runtime-controller-finalizer''\<rparr>
          (\<lambda>r ctx. if NamespacedName ctx = (''default'', ''gone'') then Inl NotFound
                    else Inl (Transient ''timeout''))
          (\<lambda>r ctx. ((empty_Result, None), r))
          (NewRuntimeReconciler () :: (nat, unit) RuntimeReconciler_scheme)
          (''default'', ''gone''))
     = (empty_Result, None) \<and>
   fst (Reconcile
          \<lparr>AccelerateCategory = ''Accelerate'', AlluxioRuntimeType = ''alluxio'',
           AlluxioEngineImpl = ''alluxio'',
           runtimeResourceFinalizerName = ''alluxio-runtime-controller-finalizer''\<rparr>
          (\<lambda>r ctx. if NamespacedName ctx = (''default'', ''gone'') then Inl NotFound
                    else Inl (Transient ''timeout''))
          (\<lambda>r ctx. ((empty_Result, None), r))
          (NewRuntimeReconciler () :: (nat, unit) RuntimeReconciler_scheme)
          (''default'', ''slow''))
     = (empty_Result, Some (Wrap (Transient ''timeout'') ''Unable to get ddc runtime''))"
proof -
  let ?c = "\<lparr>AccelerateCategory = ''Accelerate'', AlluxioRuntimeType = ''alluxio'',
             AlluxioEngineImpl = ''alluxio'',
             runtimeResourceFinalizerName = ''alluxio-runtime-controller-finalizer''\<rparr>"
  let ?g = "\<lambda>(r :: (nat, unit) RuntimeReconciler_scheme) ctx.
              if NamespacedName ctx = (''default'', ''gone'') then Inl NotFound
              else (Inl (Transient ''timeout'') :: error + AlluxioRuntime)"
  let ?i = "\<lambda>(r :: (nat, unit) RuntimeReconciler_scheme) (ctx :: ReconcileRequestContext).
              ((empty_Result, None :: error option), r)"
  let ?r = "NewRuntimeReconciler () :: (nat, unit) RuntimeReconciler_scheme"
  from Reconcile_load_failure [of ?g ?r "(''default'', ''gone'')" ?c NotFound ?i]
  have a: "fst (Reconcile ?c ?g ?i ?r (''default'', ''gone'')) = (empty_Result, None)"
    by simp
  from Reconcile_load_failure [of ?g ?r "(''default'', ''slow'')" ?c "Transient ''timeout''" ?i]
  have b: "fst (Reconcile ?c ?g ?i ?r (''default'', ''slow''))
             = (empty_Result, Some (Wrap (Transient ''timeout'') ''Unable to get ddc runtime''))"
    by simp
  from a b show ?thesis by simp
qed

text \<open>
  C9. When the runtime object is not found, \<^verbatim>\<open>Reconcile\<close> returns the reconciler as it
  was: the engines map and the mutex are what they were before the call (so no engine is
  constructed and none is evicted), and \<^verbatim>\<open>ReconcileInternal\<close>, the only path to the engine
  registry, is not consulted. On a reconciler fresh from \<^verbatim>\<open>NewRuntimeReconciler\<close> the
  engines map is still empty and the mutex unlocked.
\<close>

theorem Reconcile_not_found_frame:
  assumes "getRuntime r
             \<lparr>NamespacedName = req, Category = AccelerateCategory consts,
              RuntimeType = AlluxioRuntimeType consts,
              FinalizerName = runtimeResourceFinalizerName consts,
              Runtime = None, EngineImpl = ''''\<rparr> = Inl err"
      and "IsNotFound err"
  shows "snd (Reconcile consts getRuntime ReconcileInternal r req) = r \<and>
         engines (snd (Reconcile consts getRuntime ReconcileInternal r req)) = engines r \<and>
         mutex (snd (Reconcile consts getRuntime ReconcileInternal r req)) = mutex r \<and>
         Reconcile consts getRuntime ReconcileInternal r req
           = Reconcile consts getRuntime ReconcileInternal' r req \<and>
         (r = NewRuntimeReconciler rest \<longrightarrow>
            engines (snd (Reconcile consts getRuntime ReconcileInternal r req)) = Map.empty \<and>
            \<not> mutex (snd (Reconcile consts getRuntime ReconcileInternal r req)))"
proof -
  have eq: "Reconcile consts getRuntime RI r req = ((empty_Result, None), r)" for RI
    using assms by (simp add: Reconcile_def IgnoreNotFound_def)
  show ?thesis
    unfolding eq by (simp add: NewRuntimeReconciler_def)
qed

theorem Reconcile_not_found_frame_witness:
  "snd (Reconcile
          \<lparr>AccelerateCategory = ''Accelerate'', AlluxioRuntimeType = ''alluxio'',
           AlluxioEngineImpl = ''alluxio'',
           runtimeResourceFinalizerName = ''alluxio-runtime-controller-finalizer''\<rparr>
          (\<lambda>r ctx. Inl (Wrap NotFound ''alluxioruntimes.data.fluid.io not found''))
          (\<lambda>r ctx. ((empty_Result, None), r\<lparr>engines := (engines r)(''default-gone'' \<mapsto> 1), mutex := True\<rparr>))
          \<lparr>engines = [''default-kept'' \<mapsto> (7::nat)], mutex = False\<rparr>
          (''default'', ''gone''))
     = \<lparr>engines = [''default-kept'' \<mapsto> (7::nat)], mutex = False\<rparr>"
proof -
  let ?c = "\<lparr>AccelerateCategory = ''Accelerate'', AlluxioRuntimeType = ''alluxio'',
             AlluxioEngineImpl = ''alluxio'',
             runtimeResourceFinalizerName = ''alluxio-runtime-controller-finalizer''\<rparr>"
  let ?g = "\<lambda>(r :: nat RuntimeReconciler) (ctx :: ReconcileRequestContext).
              (Inl (Wrap NotFound ''alluxioruntimes.data.fluid.io not found'') :: error + AlluxioRuntime)"
  let ?i = "\<lambda>(r :: nat RuntimeReconciler) (ctx :: ReconcileRequestContext).
              ((empty_Result, None :: error option),
               r\<lparr>engines := (engines r)(''default-gone'' \<mapsto> 1), mutex := True\<rparr>)"
  let ?r = "\<lparr>engines = [''default-kept'' \<mapsto> (7::nat)], mutex = False\<rparr>"
  from Reconcile_not_found_frame
         [of ?g ?r "(''default'', ''gone'')" ?c
             "Wrap NotFound ''alluxioruntimes.data.fluid.io not found''" ?i]
  show ?thesis by simp
qed



section \<open>The controller's rate limiter\<close>

text \<open>
  Modelled from the spec: \<^verbatim>\<open>controllers.NewFluidControllerRateLimiter\<close> is not among the
  sources (only its call in \<^verbatim>\<open>handle\<close> is). The limiter keeps the four configured values
  and, per resource identity, the number of consecutive failures; the retry delay is
  exponential in that number, starting at the base and bounded by the ceiling, and a
  successful reconciliation resets it. Durations are \<^verbatim>\<open>time.Duration\<close> values
  (nanoseconds). The token bucket (steady rate and burst) limits insertions in real time
  and is kept as configuration only.
\<close>

record FluidRateLimiter =
  baseDelay :: int
  maxDelay :: int
  qps :: int
  burst :: int
  failures :: "NamespacedName \<Rightarrow> nat"

definition NewFluidControllerRateLimiter :: "int \<Rightarrow> int \<Rightarrow> int \<Rightarrow> int \<Rightarrow> FluidRateLimiter" where
  "NewFluidControllerRateLimiter defaultSyncBackoff maxSyncBackoff workqueueQPS workqueueBurst =
     \<lparr>baseDelay = defaultSyncBackoff, maxDelay = maxSyncBackoff,
      qps = workqueueQPS, burst = workqueueBurst, failures = (\<lambda>item. 0)\<rparr>"





section \<open>The port allocator\<close>

text \<open>
  Modelled from the spec: package \<^verbatim>\<open>portallocator\<close> is not among the sources (only the
  call of \<^verbatim>\<open>SetupRuntimePortAllocator\<close> in \<^verbatim>\<open>handle\<close> is). The allocator has a configured
  range of \<open>Size\<close> ports starting at \<open>Base\<close>, one of two policies, the ports the engine
  variant's hook reserved, and the allocation table from port to holding identity.
  A port is free when nobody holds it and it is not reserved.
\<close>

record PortRange =
  Base :: nat
  Size :: nat

datatype AllocatePolicy = BitMap | Random

datatype alloc_error = ExhaustedRange

record PortAllocator =
  port_range :: PortRange
  policy :: AllocatePolicy
  reservedPorts :: "nat list"
  table :: "nat \<rightharpoonup> NamespacedName"

definition range_ports :: "PortAllocator \<Rightarrow> nat list" where
  "range_ports a = [Base (port_range a) ..< Base (port_range a) + Size (port_range a)]"

definition is_free :: "PortAllocator \<Rightarrow> nat \<Rightarrow> bool" where
  "is_free a p \<longleftrightarrow> table a p = None \<and> p \<notin> set (reservedPorts a)"

definition free_ports :: "PortAllocator \<Rightarrow> nat list" where
  "free_ports a = filter (is_free a) (range_ports a)"

definition mark :: "(nat \<rightharpoonup> NamespacedName) \<Rightarrow> nat list \<Rightarrow> NamespacedName \<Rightarrow> (nat \<rightharpoonup> NamespacedName)" where
  "mark t ports identity = (\<lambda>p. if p \<in> set ports then Some identity else t p)"

text \<open>Modelled from the spec: the bitmap policy scans for the lowest free ports of the
  range.\<close>

definition allocate_bitmap :: "PortAllocator \<Rightarrow> nat \<Rightarrow> alloc_error + nat list" where
  "allocate_bitmap a count =
     (if length (free_ports a) < count then Inl ExhaustedRange
      else Inr (take count (free_ports a)))"

text \<open>Modelled from the spec: the random-probe policy. Each draw names a candidate port of
  the range; a candidate that is taken or already picked is a collision and the next draw is
  tried. The attempts are bounded by the number of draws; running out of them is
  exhaustion.\<close>

fun allocate_random :: "PortAllocator \<Rightarrow> nat \<Rightarrow> nat list \<Rightarrow> nat list \<Rightarrow> alloc_error + nat list" where
  "allocate_random a count picked [] =
     (if length picked = count then Inr picked else Inl ExhaustedRange)"
| "allocate_random a count picked (d # draws) =
     (if length picked = count then Inr picked
      else
        let candidate = Base (port_range a) + d mod Size (port_range a) in
        if 0 < Size (port_range a) \<and> is_free a candidate \<and> candidate \<notin> set picked
        then allocate_random a count (picked @ [candidate]) draws
        else allocate_random a count picked draws)"

text \<open>Modelled from the spec: \<open>allocate\<close> returns \<open>count\<close> distinct free ports and records
  them as held by the identity, or fails with \<open>ExhaustedRange\<close> and changes nothing;
  \<open>release\<close> frees every port the identity holds and is idempotent.\<close>

definition allocate ::
  "PortAllocator \<Rightarrow> NamespacedName \<Rightarrow> nat \<Rightarrow> nat list \<Rightarrow> (alloc_error + nat list) \<times> PortAllocator" where
  "allocate a identity count draws =
     (case (case policy a of
              BitMap \<Rightarrow> allocate_bitmap a count
            | Random \<Rightarrow> allocate_random a count [] draws) of
        Inl e \<Rightarrow> (Inl e, a)
      | Inr ports \<Rightarrow> (Inr ports, a\<lparr>table := mark (table a) ports identity\<rparr>))"

definition release :: "PortAllocator \<Rightarrow> NamespacedName \<Rightarrow> PortAllocator" where
  "release a identity =
     a\<lparr>table := (\<lambda>p. if table a p = Some identity then None else table a p)\<rparr>"

text \<open>Modelled from the spec: initialization. The policy name is validated, the reserved
  ports are asked from the hook, the existing runtime resources are listed, and every port
  a resource records in its status is marked as held by that resource, before the
  allocator exists for anyone to call.\<close>

definition runtime_identity :: "AlluxioRuntime \<Rightarrow> NamespacedName" where
  "runtime_identity rt = (Namespace rt, Name rt)"

fun restore :: "AlluxioRuntime list \<Rightarrow> (nat \<rightharpoonup> NamespacedName) \<Rightarrow> (nat \<rightharpoonup> NamespacedName)" where
  "restore [] t = t"
| "restore (rt # rts) t =
     restore rts (mark t (RecordedPorts (Status rt)) (runtime_identity rt))"

definition ValidateEnum :: "string \<Rightarrow> string + AllocatePolicy" where
  "ValidateEnum allocatePolicyStr =
     (if allocatePolicyStr = ''bitmap'' then Inr BitMap
      else if allocatePolicyStr = ''random'' then Inr Random
      else Inl ''runtime-port-allocator can only be random or bitmap'')"

definition SetupRuntimePortAllocator ::
  "(string + AlluxioRuntime list) \<Rightarrow> PortRange \<Rightarrow> string \<Rightarrow> (string + nat list) \<Rightarrow>
   string + PortAllocator" where
  "SetupRuntimePortAllocator listRuntimes portRange allocatePolicyStr getReservedPorts =
     (case ValidateEnum allocatePolicyStr of
        Inl err \<Rightarrow> Inl err
      | Inr pol \<Rightarrow>
          (case getReservedPorts of
             Inl err \<Rightarrow> Inl err
           | Inr reserved \<Rightarrow>
               (case listRuntimes of
                  Inl err \<Rightarrow> Inl err
                | Inr runtimes \<Rightarrow>
                    Inr \<lparr>port_range = portRange, policy = pol, reservedPorts = reserved,
                         table = restore runtimes Map.empty\<rparr>)))"

subsection \<open>Runs of the allocator\<close>

text \<open>A run applies a sequence of calls and records what each returned. The draws of an
  \<open>Allocate\<close> are the random source of that call (the bitmap policy ignores them).\<close>

datatype port_op = Allocate NamespacedName nat "nat list" | Release NamespacedName

datatype port_event =
  Granted NamespacedName "nat list" | Refused NamespacedName alloc_error | Freed NamespacedName

fun run :: "PortAllocator \<Rightarrow> port_op list \<Rightarrow> port_event list \<times> PortAllocator" where
  "run a [] = ([], a)"
| "run a (Allocate identity count draws # ops) =
     (case allocate a identity count draws of
        (Inl e, a') \<Rightarrow> (case run a' ops of (es, a'') \<Rightarrow> (Refused identity e # es, a''))
      | (Inr ports, a') \<Rightarrow> (case run a' ops of (es, a'') \<Rightarrow> (Granted identity ports # es, a'')))"
| "run a (Release identity # ops) =
     (case run (release a identity) ops of (es, a'') \<Rightarrow> (Freed identity # es, a''))"

text \<open>What the callers hold, read off the returned values alone: a grant adds the ports
  to the identity, a release drops all of the identity's ports.\<close>

fun held_after ::
  "(NamespacedName \<Rightarrow> nat set) \<Rightarrow> port_event list \<Rightarrow> (NamespacedName \<Rightarrow> nat set)" where
  "held_after h [] = h"
| "held_after h (Granted identity ports # es) =
     held_after (h(identity := h identity \<union> set ports)) es"
| "held_after h (Refused identity e # es) = held_after h es"
| "held_after h (Freed identity # es) = held_after (h(identity := {})) es"

fun granted_ports :: "port_event list \<Rightarrow> nat set" where
  "granted_ports [] = {}"
| "granted_ports (Granted identity ports # es) = set ports \<union> granted_ports es"
| "granted_ports (Refused identity e # es) = granted_ports es"
| "granted_ports (Freed identity # es) = granted_ports es"

section \<open>The alluxioruntime controller command\<close>

subsection \<open>Flags\<close>

text \<open>
  \<^verbatim>\<open>init\<close> registers fourteen flags on the command, each with a name, a default and the
  package variable it is bound to. The table \<open>init\<close> lists the names with their defaults in
  the order of the source; a flag set is such a table with the values given on the command
  line in front (the first entry for a name counts). \<open>bind_flags\<close> reads the package
  variables off a flag set, each from the flag it is bound to; a name that is not in the
  set leaves the variable at its zero value. \<^verbatim>\<open>kube-api-qps\<close> is a float32 and defaults to
  20.
\<close>

datatype flag_value = StringVal string | BoolVal bool | IntVal int | Float32Val float32

definition init :: "(string \<times> flag_value) list" where
  "init =
     [(''metrics-addr'', StringVal '':8080''),
      (''enable-leader-election'', BoolVal False),
      (''leader-election-namespace'', StringVal ''fluid-system''),
      (''development'', BoolVal True),
      (''runtime-node-port-range'', StringVal ''20000-25000''),
      (''runtime-workers'', IntVal 3),
      (''pprof-addr'', StringVal ''''),
      (''port-allocate-policy'', StringVal ''random''),
      (''kube-api-qps'', Float32Val float32_20),
      (''kube-api-burst'', IntVal 30),
      (''workqueue-default-sync-backoff'', StringVal ''5ms''),
      (''workqueue-max-sync-backoff'', StringVal ''1000s''),
      (''workqueue-qps'', IntVal 10),
      (''workqueue-burst'', IntVal 100)]"

definition string_flag :: "(string \<times> flag_value) list \<Rightarrow> string \<Rightarrow> string" where
  "string_flag fs name = (case map_of fs name of Some (StringVal v) \<Rightarrow> v | _ \<Rightarrow> '''')"

definition bool_flag :: "(string \<times> flag_value) list \<Rightarrow> string \<Rightarrow> bool" where
  "bool_flag fs name = (case map_of fs name of Some (BoolVal v) \<Rightarrow> v | _ \<Rightarrow> False)"

definition int_flag :: "(string \<times> flag_value) list \<Rightarrow> string \<Rightarrow> int" where
  "int_flag fs name = (case map_of fs name of Some (IntVal v) \<Rightarrow> v | _ \<Rightarrow> 0)"

definition float32_flag :: "(string \<times> flag_value) list \<Rightarrow> string \<Rightarrow> float32" where
  "float32_flag fs name = (case map_of fs name of Some (Float32Val v) \<Rightarrow> v | _ \<Rightarrow> 0)"

record flags =
  metricsAddr :: string
  enableLeaderElection :: bool
  leaderElectionNamespace :: string
  development :: bool
  portRange :: string
  maxConcurrentReconciles :: int
  pprofAddr :: string
  portAllocatePolicy :: string
  kubeClientQPS :: float32
  kubeClientBurst :: int
  controllerWorkqueueDefaultSyncBackoffStr :: string
  controllerWorkqueueMaxSyncBackoffStr :: string
  controllerWorkqueueQPS :: int
  controllerWorkqueueBurst :: int

definition bind_flags :: "(string \<times> flag_value) list \<Rightarrow> flags" where
  "bind_flags fs =
     \<lparr>metricsAddr = string_flag fs ''metrics-addr'',
      enableLeaderElection = bool_flag fs ''enable-leader-election'',
      leaderElectionNamespace = string_flag fs ''leader-election-namespace'',
      development = bool_flag fs ''development'',
      portRange = string_flag fs ''runtime-node-port-range'',
      maxConcurrentReconciles = int_flag fs ''runtime-workers'',
      pprofAddr = string_flag fs ''pprof-addr'',
      portAllocatePolicy = string_flag fs ''port-allocate-policy'',
      kubeClientQPS = float32_flag fs ''kube-api-qps'',
      kubeClientBurst = int_flag fs ''kube-api-burst'',
      controllerWorkqueueDefaultSyncBackoffStr = string_flag fs ''workqueue-default-sync-backoff'',
      controllerWorkqueueMaxSyncBackoffStr = string_flag fs ''workqueue-max-sync-backoff'',
      controllerWorkqueueQPS = int_flag fs ''workqueue-qps'',
      controllerWorkqueueBurst = int_flag fs ''workqueue-burst''\<rparr>"

text \<open>The variables when no flag is given on the command line.\<close>

definition default_flags :: flags where
  "default_flags = bind_flags init"

subsection \<open>handle\<close>

record manager_Options =
  MetricsBindAddress :: string
  LeaderElection :: bool
  LeaderElectionNamespace :: string
  LeaderElectionID :: string

record controller_Options =
  MaxConcurrentReconciles :: int
  RateLimiter :: FluidRateLimiter

text \<open>
  What \<^verbatim>\<open>handle\<close> calls outside the sources, as parameters: the kubeconfig loader (which
  exits the process with status 1 by itself when it fails, hence \<open>None\<close>), the manager's
  constructor, \<^verbatim>\<open>time.ParseDuration\<close>, the reconciler's registration with the manager,
  \<^verbatim>\<open>net.ParsePortRange\<close>, the listing of runtime resources and the reserved-ports hook
  that the allocator's setup reads through the manager's client, and the manager's
  \<^verbatim>\<open>Start\<close>, which runs the reconcilers until it returns.
\<close>

record ('cfg, 'mgr) environment =
  GetConfigOrDieWithQPSAndBurst :: "float32 \<Rightarrow> int \<Rightarrow> 'cfg option"
  NewManager :: "'cfg \<Rightarrow> manager_Options \<Rightarrow> string + 'mgr"
  ParseDuration :: "string \<Rightarrow> string + int"
  SetupWithManager :: "'mgr \<Rightarrow> controller_Options \<Rightarrow> string option"
  ParsePortRange :: "string \<Rightarrow> string + PortRange"
  ListRuntimes :: "'mgr \<Rightarrow> string + AlluxioRuntime list"
  GetReservedPorts :: "'mgr \<Rightarrow> string + nat list"
  Start :: "'mgr \<Rightarrow> string option"

text \<open>The observable steps of \<^verbatim>\<open>handle\<close>, in order (the two messages about durations
  are cut before their examples), and how the process ends:
  \<open>exit_status = Some 1\<close> is \<^verbatim>\<open>os.Exit(1)\<close>, \<open>None\<close> a normal return. \<open>allocator\<close> is the
  package's allocator once it has been set up.\<close>

datatype event =
    LogVersion
  | SetLogger bool
  | NewPprofServer string bool
  | ManagerCreated manager_Options
  | ErrorLogged string
  | InfoLogged string
  | ReconcilerSetup controller_Options
  | PortAllocatorSetup PortRange string
  | ManagerStart

record outcome =
  trace :: "event list"
  exit_status :: "int option"
  allocator :: "PortAllocator option"

definition os_Exit :: "event list \<Rightarrow> int \<Rightarrow> outcome" where
  "os_Exit t code = \<lparr>trace = t, exit_status = Some code, allocator = None\<rparr>"

definition handle :: "('cfg, 'mgr) environment \<Rightarrow> flags \<Rightarrow> outcome" where
  "handle env fl =
     (let t0 = [LogVersion, SetLogger (development fl),
                NewPprofServer (pprofAddr fl) (development fl)];
          opts = \<lparr>MetricsBindAddress = metricsAddr fl,
                  LeaderElection = enableLeaderElection fl,
                  LeaderElectionNamespace = leaderElectionNamespace fl,
                  LeaderElectionID = ''alluxio.data.fluid.io''\<rparr>
      in
      case GetConfigOrDieWithQPSAndBurst env (kubeClientQPS fl) (kubeClientBurst fl) of
        None \<Rightarrow> os_Exit t0 1
      | Some cfg \<Rightarrow>
      (case NewManager env cfg opts of
        Inl err \<Rightarrow> os_Exit (t0 @ [ErrorLogged ''unable to start alluxioruntime manager'']) 1
      | Inr mgr \<Rightarrow>
      let t1 = t0 @ [ManagerCreated opts] in
      (case ParseDuration env (controllerWorkqueueDefaultSyncBackoffStr fl) of
        Inl err \<Rightarrow>
          os_Exit (t1 @ [ErrorLogged ''workqueue-default-sync-backoff is not a valid duration'']) 1
      | Inr defaultSyncBackoff \<Rightarrow>
      (case ParseDuration env (controllerWorkqueueMaxSyncBackoffStr fl) of
        Inl err \<Rightarrow>
          os_Exit (t1 @ [ErrorLogged ''workqueue-max-sync-backoff is not a valid duration'']) 1
      | Inr maxSyncBackoff \<Rightarrow>
      let controllerOptions =
            \<lparr>MaxConcurrentReconciles = maxConcurrentReconciles fl,
             RateLimiter = NewFluidControllerRateLimiter defaultSyncBackoff maxSyncBackoff
                             (controllerWorkqueueQPS fl) (controllerWorkqueueBurst fl)\<rparr>;
          t2 = t1 @ [ReconcilerSetup controllerOptions]
      in
      (case SetupWithManager env mgr controllerOptions of
        Some err \<Rightarrow> os_Exit (t2 @ [ErrorLogged ''unable to create controller'']) 1
      | None \<Rightarrow>
      (case ParsePortRange env (portRange fl) of
        Inl err \<Rightarrow>
          os_Exit (t2 @ [ErrorLogged ''can't parse port range. Port range must be like <min>-<max>'']) 1
      | Inr pr \<Rightarrow>
      let t3 = t2 @ [InfoLogged ''port range parsed''] in
      (case SetupRuntimePortAllocator (ListRuntimes env mgr) pr (portAllocatePolicy fl)
              (GetReservedPorts env mgr) of
        Inl err \<Rightarrow> os_Exit (t3 @ [ErrorLogged ''failed to setup runtime port allocator'']) 1
      | Inr rpa \<Rightarrow>
      let t4 = t3 @ [PortAllocatorSetup pr (portAllocatePolicy fl),
                     InfoLogged ''Set up runtime port allocator'',
                     InfoLogged ''starting alluxioruntime-controller'',
                     ManagerStart]
      in
      (case Start env mgr of
        Some err \<Rightarrow>
          \<lparr>trace = t4 @ [ErrorLogged ''problem alluxioruntime-controller''],
           exit_status = Some 1, allocator = Some rpa\<rparr>
      | None \<Rightarrow> \<lparr>trace = t4, exit_status = None, allocator = Some rpa\<rparr>))))))))"

section \<open>Properties of the rate limiter\<close>










section \<open>Properties of the port allocator\<close>

lemma free_ports_free: "p \<in> set (free_ports a) \<Longrightarrow> is_free a p"
  by (simp add: free_ports_def)

lemma distinct_free_ports: "distinct (free_ports a)"
  by (simp add: free_ports_def range_ports_def)

lemma length_free_ports_le: "length (free_ports a) \<le> Size (port_range a)"
proof -
  have "length (free_ports a) \<le> length (range_ports a)"
    unfolding free_ports_def by (rule length_filter_le)
  then show ?thesis by (simp add: range_ports_def)
qed

lemma allocate_bitmap_sound:
  assumes "allocate_bitmap a count = Inr ports"
  shows "length ports = count \<and> distinct ports \<and> set ports \<subseteq> set (free_ports a)"
proof -
  from assms have le: "count \<le> length (free_ports a)" and eq: "ports = take count (free_ports a)"
    by (auto simp: allocate_bitmap_def split: if_splits)
  from le eq have "length ports = count" by simp
  moreover from eq have "distinct ports" by (simp add: distinct_free_ports)
  moreover from eq have "set ports \<subseteq> set (free_ports a)" by (simp add: set_take_subset)
  ultimately show ?thesis by blast
qed

lemma allocate_random_sound:
  assumes "allocate_random a count picked draws = Inr ports"
      and "distinct picked" and "set picked \<subseteq> set (free_ports a)"
  shows "length ports = count \<and> distinct ports \<and> set ports \<subseteq> set (free_ports a)"
  using assms
proof (induction a count picked draws rule: allocate_random.induct)
  case (1 a count picked)
  then show ?case by (auto split: if_splits)
next
  case (2 a count picked d draws)
  let ?c = "Base (port_range a) + d mod Size (port_range a)"
  show ?case
  proof (cases "length picked = count")
    case True
    with 2 show ?thesis by auto
  next
    case ne: False
    show ?thesis
    proof (cases "0 < Size (port_range a) \<and> is_free a ?c \<and> ?c \<notin> set picked")
      case True
      then have "?c \<in> set (free_ports a)"
        by (simp add: free_ports_def range_ports_def)
      with True ne 2 show ?thesis by (auto simp: Let_def)
    next
      case False
      with ne 2 show ?thesis by (auto simp: Let_def)
    qed
  qed
qed

lemma allocate_sound:
  assumes "allocate a identity count draws = (Inr ports, a')"
  shows "length ports = count \<and> distinct ports \<and> set ports \<subseteq> set (free_ports a) \<and>
         a' = a\<lparr>table := mark (table a) ports identity\<rparr>"
proof (cases "policy a")
  case BitMap
  with assms have "allocate_bitmap a count = Inr ports"
    and "a' = a\<lparr>table := mark (table a) ports identity\<rparr>"
    by (auto simp: allocate_def split: sum.splits)
  then show ?thesis using allocate_bitmap_sound by blast
next
  case Random
  with assms have "allocate_random a count [] draws = Inr ports"
    and "a' = a\<lparr>table := mark (table a) ports identity\<rparr>"
    by (auto simp: allocate_def split: sum.splits)
  then show ?thesis using allocate_random_sound [of a count "[]" draws ports] by simp
qed

lemma allocate_refused:
  assumes "allocate a identity count draws = (Inl e, a')"
  shows "a' = a"
  using assms by (auto simp: allocate_def split: sum.splits AllocatePolicy.splits)

lemma allocate_exhausted:
  assumes "length (free_ports a) < count"
  shows "allocate a identity count draws = (Inl ExhaustedRange, a)"
proof (cases "fst (allocate a identity count draws)")
  case (Inl e)
  then have "allocate a identity count draws = (Inl e, snd (allocate a identity count draws))"
    by (metis prod.collapse)
  with allocate_refused [OF this] show ?thesis by (cases e) simp
next
  case (Inr ports)
  then have "allocate a identity count draws = (Inr ports, snd (allocate a identity count draws))"
    by (metis prod.collapse)
  from allocate_sound [OF this]
  have "length ports = count" "distinct ports" "set ports \<subseteq> set (free_ports a)" by auto
  then have "count = card (set ports)" by (simp add: distinct_card)
  also have "\<dots> \<le> card (set (free_ports a))"
    using \<open>set ports \<subseteq> set (free_ports a)\<close> by (simp add: card_mono)
  also have "\<dots> \<le> length (free_ports a)" by (rule card_length)
  finally show ?thesis using assms by simp
qed

text \<open>The table agrees with what the callers were given.\<close>

definition consistent :: "PortAllocator \<Rightarrow> (NamespacedName \<Rightarrow> nat set) \<Rightarrow> bool" where
  "consistent a h \<longleftrightarrow> (\<forall>i p. p \<in> h i \<longrightarrow> table a p = Some i)"

lemma consistent_allocate:
  assumes "consistent a h" and "allocate a i count draws = (Inr ports, a')"
  shows "consistent a' (h(i := h i \<union> set ports))"
proof -
  from allocate_sound [OF assms(2)]
  have fr: "set ports \<subseteq> set (free_ports a)" and a': "a' = a\<lparr>table := mark (table a) ports i\<rparr>"
    by auto
  have none: "table a p = None" if "p \<in> set ports" for p
    using that fr free_ports_free [of p a] by (auto simp: is_free_def)
  show ?thesis
    unfolding consistent_def
  proof (intro allI impI)
    fix j p assume "p \<in> (h(i := h i \<union> set ports)) j"
    then consider "p \<in> set ports" "j = i" | "p \<in> h j"
      by (auto split: if_splits)
    then show "table a' p = Some j"
    proof cases
      case 1
      then show ?thesis by (simp add: a' mark_def)
    next
      case 2
      with assms(1) have "table a p = Some j" unfolding consistent_def by blast
      with none have "p \<notin> set ports" by auto
      with \<open>table a p = Some j\<close> show ?thesis by (simp add: a' mark_def)
    qed
  qed
qed

lemma consistent_release:
  assumes "consistent a h"
  shows "consistent (release a i) (h(i := {}))"
  using assms by (auto simp: consistent_def release_def)

lemma consistent_run:
  assumes "consistent a h"
  shows "consistent (snd (run a ops)) (held_after h (fst (run a ops)))"
  using assms
proof (induction ops arbitrary: a h)
  case Nil
  then show ?case by simp
next
  case (Cons op ops)
  show ?case
  proof (cases op)
    case (Allocate i count draws)
    obtain res a' where al: "allocate a i count draws = (res, a')"
      by (cases "allocate a i count draws")
    show ?thesis
    proof (cases res)
      case (Inl e)
      with al allocate_refused have "a' = a" by blast
      with Allocate al Inl have "run a (op # ops) = (Refused i e # fst (run a ops), snd (run a ops))"
        by (simp add: split_beta)
      then show ?thesis
        using Cons.IH [OF Cons.prems] by (simp only: fst_conv snd_conv held_after.simps)
    next
      case (Inr ports)
      with al Cons.prems consistent_allocate
      have "consistent a' (h(i := h i \<union> set ports))" by blast
      moreover from Allocate al Inr
      have "run a (op # ops) = (Granted i ports # fst (run a' ops), snd (run a' ops))"
        by (simp add: split_beta)
      ultimately show ?thesis
        using Cons.IH [of a' "h(i := h i \<union> set ports)"]
        by (simp only: fst_conv snd_conv held_after.simps)
    qed
  next
    case (Release i)
    from Release
    have "run a (op # ops) = (Freed i # fst (run (release a i) ops), snd (run (release a i) ops))"
      by (simp add: split_beta)
    then show ?thesis
      using Cons.IH [OF consistent_release [OF Cons.prems, of i]]
      by (simp only: fst_conv snd_conv held_after.simps)
  qed
qed

text \<open>
  C1. For every allocator over a range of \<open>Size\<close> ports and every sequence of allocate and
  release calls, the ports two distinct identities hold (by what the calls returned) never
  overlap; an allocate for more ports than are free fails with \<open>ExhaustedRange\<close>, returns
  no ports and leaves the allocator as it was; in particular an allocate of \<open>Size + 1\<close>
  ports always fails so.
\<close>

theorem allocator_exclusive_and_exhaustion:
  "(A \<noteq> B \<longrightarrow>
      held_after (\<lambda>i. {}) (fst (run a ops)) A \<inter> held_after (\<lambda>i. {}) (fst (run a ops)) B = {}) \<and>
   (length (free_ports a) < count \<longrightarrow>
      allocate a identity count draws = (Inl ExhaustedRange, a)) \<and>
   allocate a identity (Size (port_range a) + 1) draws = (Inl ExhaustedRange, a)"
proof -
  have "consistent a (\<lambda>i. {})" by (simp add: consistent_def)
  from consistent_run [OF this, of ops]
  have c: "\<And>i p. p \<in> held_after (\<lambda>i. {}) (fst (run a ops)) i \<Longrightarrow> table (snd (run a ops)) p = Some i"
    unfolding consistent_def by blast
  have "A \<noteq> B \<Longrightarrow>
      held_after (\<lambda>i. {}) (fst (run a ops)) A \<inter> held_after (\<lambda>i. {}) (fst (run a ops)) B = {}"
  proof (rule ccontr)
    assume "A \<noteq> B"
      and "held_after (\<lambda>i. {}) (fst (run a ops)) A \<inter> held_after (\<lambda>i. {}) (fst (run a ops)) B \<noteq> {}"
    then obtain p where "p \<in> held_after (\<lambda>i. {}) (fst (run a ops)) A"
      and "p \<in> held_after (\<lambda>i. {}) (fst (run a ops)) B" by blast
    then have "table (snd (run a ops)) p = Some A" "table (snd (run a ops)) p = Some B"
      using c by blast+
    with \<open>A \<noteq> B\<close> show False by simp
  qed
  moreover have "length (free_ports a) < Size (port_range a) + 1"
    using length_free_ports_le [of a] by simp
  ultimately show ?thesis
    using allocate_exhausted by blast
qed

theorem allocator_exclusive_and_exhaustion_witness:
  "(''default'', ''a'') \<noteq> (''default'', ''b'') \<and>
   fst (run \<lparr>port_range = \<lparr>Base = 20000, Size = 3\<rparr>, policy = BitMap, reservedPorts = [],
             table = Map.empty\<rparr>
          [Allocate (''default'', ''a'') 2 [], Allocate (''default'', ''b'') 1 [],
           Release (''default'', ''a''), Allocate (''default'', ''b'') 2 []])
     = [Granted (''default'', ''a'') [20000, 20001], Granted (''default'', ''b'') [20002],
        Freed (''default'', ''a''), Granted (''default'', ''b'') [20000, 20001]] \<and>
   held_after (\<lambda>i. {})
     (fst (run \<lparr>port_range = \<lparr>Base = 20000, Size = 3\<rparr>, policy = BitMap, reservedPorts = [],
                table = Map.empty\<rparr>
          [Allocate (''default'', ''a'') 2 [], Allocate (''default'', ''b'') 1 [],
           Release (''default'', ''a''), Allocate (''default'', ''b'') 2 []])) (''default'', ''a'')
   \<inter>
   held_after (\<lambda>i. {})
     (fst (run \<lparr>port_range = \<lparr>Base = 20000, Size = 3\<rparr>, policy = BitMap, reservedPorts = [],
                table = Map.empty\<rparr>
          [Allocate (''default'', ''a'') 2 [], Allocate (''default'', ''b'') 1 [],
           Release (''default'', ''a''), Allocate (''default'', ''b'') 2 []])) (''default'', ''b'')
     = {} \<and>
   length (free_ports \<lparr>port_range = \<lparr>Base = 20000, Size = 3\<rparr>, policy = Random,
                        reservedPorts = [20001], table = Map.empty\<rparr>) < 3 \<and>
   fst (allocate \<lparr>port_range = \<lparr>Base = 20000, Size = 3\<rparr>, policy = Random,
                  reservedPorts = [20001], table = Map.empty\<rparr>
          (''default'', ''a'') 3 [0, 1, 2, 3, 4, 5]) = Inl ExhaustedRange"
proof -
  let ?a = "\<lparr>port_range = \<lparr>Base = 20000, Size = 3\<rparr>, policy = BitMap, reservedPorts = [],
             table = Map.empty\<rparr>"
  let ?b = "\<lparr>port_range = \<lparr>Base = 20000, Size = 3\<rparr>, policy = Random,
             reservedPorts = [20001], table = Map.empty\<rparr>"
  let ?ops = "[Allocate (''default'', ''a'') 2 [], Allocate (''default'', ''b'') 1 [],
               Release (''default'', ''a''), Allocate (''default'', ''b'') 2 []]"
  have ne: "(''default'', ''a'') \<noteq> (''default'', ''b'')" by simp
  have ev: "fst (run ?a ?ops)
     = [Granted (''default'', ''a'') [20000, 20001], Granted (''default'', ''b'') [20002],
        Freed (''default'', ''a''), Granted (''default'', ''b'') [20000, 20001]]"
    by (simp add: allocate_def allocate_bitmap_def free_ports_def range_ports_def is_free_def
          mark_def release_def)
  have fr: "length (free_ports ?b) < 3"
    by (simp add: free_ports_def range_ports_def is_free_def)
  from allocator_exclusive_and_exhaustion
         [of "(''default'', ''a'')" "(''default'', ''b'')" ?a ?ops 4 "(''default'', ''a'')" "[]"]
       allocator_exclusive_and_exhaustion
         [of "(''default'', ''a'')" "(''default'', ''b'')" ?b "[]" 3 "(''default'', ''a'')"
             "[0, 1, 2, 3, 4, 5]"]
  show ?thesis using ne ev fr by simp
qed

lemma restore_keeps: "t p \<noteq> None \<Longrightarrow> restore rts t p \<noteq> None"
  by (induction rts arbitrary: t) (auto simp: mark_def)

lemma restore_marks:
  "rt \<in> set rts \<Longrightarrow> p \<in> set (RecordedPorts (Status rt)) \<Longrightarrow> restore rts t p \<noteq> None"
proof (induction rts arbitrary: t)
  case Nil
  then show ?case by simp
next
  case (Cons r rts)
  show ?case
  proof (cases "rt = r")
    case True
    with Cons.prems have "mark t (RecordedPorts (Status r)) (runtime_identity r) p \<noteq> None"
      by (simp add: mark_def)
    then show ?thesis by (simp add: restore_keeps)
  next
    case False
    with Cons show ?thesis by simp
  qed
qed

lemma restore_holder:
  "restore rts t p = Some i \<Longrightarrow>
     t p = Some i \<or> (\<exists>rt \<in> set rts. p \<in> set (RecordedPorts (Status rt)) \<and> i = runtime_identity rt)"
proof (induction rts arbitrary: t)
  case Nil
  then show ?case by simp
next
  case (Cons r rts)
  from Cons.IH [of "mark t (RecordedPorts (Status r)) (runtime_identity r)"] Cons.prems
  show ?case by (auto simp: mark_def split: if_splits)
qed

definition blocked :: "PortAllocator \<Rightarrow> port_op list \<Rightarrow> nat \<Rightarrow> bool" where
  "blocked a ops p \<longleftrightarrow>
     p \<in> set (reservedPorts a) \<or> (\<exists>i. table a p = Some i \<and> Release i \<notin> set ops)"

lemma blocked_not_free: "blocked a ops p \<Longrightarrow> \<not> is_free a p"
  by (auto simp: blocked_def is_free_def)

lemma blocked_not_granted:
  "blocked a ops p \<Longrightarrow> p \<notin> granted_ports (fst (run a ops))"
proof (induction ops arbitrary: a)
  case Nil
  then show ?case by simp
next
  case (Cons op ops)
  show ?case
  proof (cases op)
    case (Allocate i count draws)
    obtain res a' where al: "allocate a i count draws = (res, a')"
      by (cases "allocate a i count draws")
    from Cons.prems have bl: "blocked a ops p" by (auto simp: blocked_def)
    show ?thesis
    proof (cases res)
      case (Inl e)
      with al allocate_refused have "a' = a" by blast
      with Allocate al Inl have "fst (run a (op # ops)) = Refused i e # fst (run a ops)"
        by (simp add: split_beta)
      with Cons.IH [OF bl] show ?thesis by simp
    next
      case (Inr ports)
      from allocate_sound [OF al [unfolded Inr]]
      have fr: "set ports \<subseteq> set (free_ports a)" and a': "a' = a\<lparr>table := mark (table a) ports i\<rparr>"
        by auto
      from bl blocked_not_free have "\<not> is_free a p" by blast
      with fr free_ports_free have notin: "p \<notin> set ports" by blast
      then have "table a' p = table a p" "reservedPorts a' = reservedPorts a"
        by (simp_all add: a' mark_def)
      with bl have "blocked a' ops p" by (simp add: blocked_def)
      from Cons.IH [OF this] have "p \<notin> granted_ports (fst (run a' ops))" .
      moreover from Allocate al Inr
      have "fst (run a (op # ops)) = Granted i ports # fst (run a' ops)"
        by (simp add: split_beta)
      ultimately show ?thesis using notin by simp
    qed
  next
    case (Release j)
    from Cons.prems Release have "blocked (release a j) ops p"
      by (auto simp: blocked_def release_def)
    from Cons.IH [OF this] Release show ?thesis by (simp add: split_beta)
  qed
qed

lemma Setup_Inr:
  assumes "SetupRuntimePortAllocator (Inr runtimes) prange policyStr (Inr reserved) = Inr a0"
  shows "reservedPorts a0 = reserved \<and> table a0 = restore runtimes Map.empty \<and>
         port_range a0 = prange \<and> ValidateEnum policyStr = Inr (policy a0)"
  using assms by (auto simp: SetupRuntimePortAllocator_def split: sum.splits)

lemma handle_started:
  assumes "ManagerStart \<in> set (trace (handle env fl))"
  shows "\<exists>mgr pr a.
           ParsePortRange env (portRange fl) = Inr pr \<and>
           SetupRuntimePortAllocator (ListRuntimes env mgr) pr (portAllocatePolicy fl)
             (GetReservedPorts env mgr) = Inr a \<and>
           allocator (handle env fl) = Some a \<and>
           PortAllocatorSetup pr (portAllocatePolicy fl)
             \<in> set (takeWhile (\<lambda>e. e \<noteq> ManagerStart) (trace (handle env fl)))"
  using assms
  by (auto simp: handle_def Let_def os_Exit_def split: option.splits sum.splits)

lemma default_flags_eq:
  "default_flags =
     \<lparr>metricsAddr = '':8080'',
      enableLeaderElection = False,
      leaderElectionNamespace = ''fluid-system'',
      development = True,
      portRange = ''20000-25000'',
      maxConcurrentReconciles = 3,
      pprofAddr = '''',
      portAllocatePolicy = ''random'',
      kubeClientQPS = float32_20,
      kubeClientBurst = 30,
      controllerWorkqueueDefaultSyncBackoffStr = ''5ms'',
      controllerWorkqueueMaxSyncBackoffStr = ''1000s'',
      controllerWorkqueueQPS = 10,
      controllerWorkqueueBurst = 100\<rparr>"
  by (simp add: default_flags_def bind_flags_def init_def string_flag_def bool_flag_def
        int_flag_def float32_flag_def)

text \<open>A concrete environment in which every step of \<^verbatim>\<open>handle\<close> succeeds: the two default
  durations parse, the default port range parses, one runtime is listed with two recorded
  ports, and one port is reserved.\<close>

definition demo_env :: "(unit, unit) environment" where
  "demo_env =
     \<lparr>GetConfigOrDieWithQPSAndBurst = (\<lambda>q b. Some ()),
      NewManager = (\<lambda>cfg opts. Inr ()),
      ParseDuration = (\<lambda>s. if s = ''5ms'' then Inr 5000000
                            else if s = ''1000s'' then Inr 1000000000000
                            else Inl ''time: invalid duration''),
      SetupWithManager = (\<lambda>mgr opts. None),
      ParsePortRange = (\<lambda>s. if s = ''20000-25000'' then Inr \<lparr>Base = 20000, Size = 5001\<rparr>
                             else Inl ''expected range of the form <min>-<max>''),
      ListRuntimes = (\<lambda>mgr. Inr [\<lparr>Namespace = ''default'', Name = ''hbase'',
                                     Status = \<lparr>BoundEngineKind = None,
                                               RecordedPorts = [20000, 20001]\<rparr>\<rparr>]),
      GetReservedPorts = (\<lambda>mgr. Inr [20002]),
      Start = (\<lambda>mgr. None)\<rparr>"

text \<open>
  C3. An allocator that \<^verbatim>\<open>SetupRuntimePortAllocator\<close> built from the listed runtime
  resources and the reserved-ports hook has every recorded and every reserved port marked
  as not free. In every run from it, a reserved port is never granted, and a recorded port
  is not granted as long as no resource that recorded it is released. And whenever
  \<^verbatim>\<open>handle\<close> starts the manager (the only way a reconciler gets to run and ask for
  ports), the allocator has been set up before that, from the listed resources and the
  hook.
\<close>

theorem allocator_restart_recovery:
  "(SetupRuntimePortAllocator (Inr runtimes) prange policyStr (Inr reserved) = Inr a0 \<longrightarrow>
      (p \<in> set reserved \<or> (\<exists>rt \<in> set runtimes. p \<in> set (RecordedPorts (Status rt)))
         \<longrightarrow> \<not> is_free a0 p) \<and>
      (p \<in> set reserved \<longrightarrow> p \<notin> granted_ports (fst (run a0 ops))) \<and>
      ((\<exists>rt \<in> set runtimes. p \<in> set (RecordedPorts (Status rt))) \<and>
       (\<forall>rt \<in> set runtimes. p \<in> set (RecordedPorts (Status rt))
           \<longrightarrow> Release (runtime_identity rt) \<notin> set ops)
         \<longrightarrow> p \<notin> granted_ports (fst (run a0 ops)))) \<and>
   (ManagerStart \<in> set (trace (handle env fl)) \<longrightarrow>
      (\<exists>mgr pr a.
         ParsePortRange env (portRange fl) = Inr pr \<and>
         SetupRuntimePortAllocator (ListRuntimes env mgr) pr (portAllocatePolicy fl)
           (GetReservedPorts env mgr) = Inr a \<and>
         allocator (handle env fl) = Some a \<and>
         PortAllocatorSetup pr (portAllocatePolicy fl)
           \<in> set (takeWhile (\<lambda>e. e \<noteq> ManagerStart) (trace (handle env fl)))))"
proof -
  have A: "p \<notin> granted_ports (fst (run a0 ops))" "\<not> is_free a0 p"
    if s: "SetupRuntimePortAllocator (Inr runtimes) prange policyStr (Inr reserved) = Inr a0"
      and r: "p \<in> set reserved"
  proof -
    from Setup_Inr [OF s] r have "blocked a0 ops p" by (simp add: blocked_def)
    then show "p \<notin> granted_ports (fst (run a0 ops))" "\<not> is_free a0 p"
      using blocked_not_granted blocked_not_free by blast+
  qed
  have B: "\<not> is_free a0 p"
    if s: "SetupRuntimePortAllocator (Inr runtimes) prange policyStr (Inr reserved) = Inr a0"
      and r: "rt \<in> set runtimes" "p \<in> set (RecordedPorts (Status rt))" for rt
    using Setup_Inr [OF s] restore_marks [OF r, of Map.empty] by (simp add: is_free_def)
  have C: "p \<notin> granted_ports (fst (run a0 ops))"
    if s: "SetupRuntimePortAllocator (Inr runtimes) prange policyStr (Inr reserved) = Inr a0"
      and r: "rt \<in> set runtimes" "p \<in> set (RecordedPorts (Status rt))"
      and n: "\<forall>rt \<in> set runtimes. p \<in> set (RecordedPorts (Status rt))
                \<longrightarrow> Release (runtime_identity rt) \<notin> set ops" for rt
  proof -
    from restore_marks [OF r, of Map.empty] obtain i where i: "restore runtimes Map.empty p = Some i"
      by blast
    from restore_holder [OF i] n have "Release i \<notin> set ops" by auto
    with i Setup_Inr [OF s] have "blocked a0 ops p" by (simp add: blocked_def)
    then show ?thesis by (rule blocked_not_granted)
  qed
  from A B C handle_started [of env fl] show ?thesis by blast
qed

theorem allocator_restart_recovery_witness:
  "SetupRuntimePortAllocator
     (Inr [\<lparr>Namespace = ''default'', Name = ''hbase'',
            Status = \<lparr>BoundEngineKind = None, RecordedPorts = [20000, 20001]\<rparr>\<rparr>])
     \<lparr>Base = 20000, Size = 4\<rparr> ''bitmap'' (Inr [20002])
     = Inr \<lparr>port_range = \<lparr>Base = 20000, Size = 4\<rparr>, policy = BitMap, reservedPorts = [20002],
            table = restore [\<lparr>Namespace = ''default'', Name = ''hbase'',
                      Status = \<lparr>BoundEngineKind = None, RecordedPorts = [20000, 20001]\<rparr>\<rparr>]
                      Map.empty\<rparr> \<and>
   fst (run \<lparr>port_range = \<lparr>Base = 20000, Size = 4\<rparr>, policy = BitMap, reservedPorts = [20002],
            table = restore [\<lparr>Namespace = ''default'', Name = ''hbase'',
                      Status = \<lparr>BoundEngineKind = None, RecordedPorts = [20000, 20001]\<rparr>\<rparr>]
                      Map.empty\<rparr>
          [Allocate (''default'', ''spark'') 1 [], Allocate (''default'', ''hive'') 1 []])
     = [Granted (''default'', ''spark'') [20003], Refused (''default'', ''hive'') ExhaustedRange] \<and>
   20000 \<notin> granted_ports
     (fst (run \<lparr>port_range = \<lparr>Base = 20000, Size = 4\<rparr>, policy = BitMap, reservedPorts = [20002],
            table = restore [\<lparr>Namespace = ''default'', Name = ''hbase'',
                      Status = \<lparr>BoundEngineKind = None, RecordedPorts = [20000, 20001]\<rparr>\<rparr>]
                      Map.empty\<rparr>
          [Allocate (''default'', ''spark'') 1 [], Allocate (''default'', ''hive'') 1 []])) \<and>
   ManagerStart \<in> set (trace (handle demo_env default_flags)) \<and>
   allocator (handle demo_env default_flags) \<noteq> None"
proof -
  let ?rts = "[\<lparr>Namespace = ''default'', Name = ''hbase'',
            Status = \<lparr>BoundEngineKind = None, RecordedPorts = [20000, 20001]\<rparr>\<rparr>]"
  let ?a0 = "\<lparr>port_range = \<lparr>Base = 20000, Size = 4\<rparr>, policy = BitMap, reservedPorts = [20002],
            table = restore ?rts Map.empty\<rparr>"
  let ?ops = "[Allocate (''default'', ''spark'') 1 [], Allocate (''default'', ''hive'') 1 []]"
  have s: "SetupRuntimePortAllocator (Inr ?rts) \<lparr>Base = 20000, Size = 4\<rparr> ''bitmap'' (Inr [20002])
             = Inr ?a0"
    by (simp add: SetupRuntimePortAllocator_def ValidateEnum_def)
  have ev: "fst (run ?a0 ?ops)
     = [Granted (''default'', ''spark'') [20003], Refused (''default'', ''hive'') ExhaustedRange]"
    by (simp add: allocate_def allocate_bitmap_def free_ports_def range_ports_def is_free_def
          mark_def release_def)
  have st: "ManagerStart \<in> set (trace (handle demo_env default_flags))"
    by (simp add: handle_def demo_env_def default_flags_eq SetupRuntimePortAllocator_def
          ValidateEnum_def Let_def)
  have rec: "\<exists>rt \<in> set ?rts. (20000::nat) \<in> set (RecordedPorts (Status rt))"
    and norel: "\<forall>rt \<in> set ?rts. (20000::nat) \<in> set (RecordedPorts (Status rt))
                  \<longrightarrow> Release (runtime_identity rt) \<notin> set ?ops"
    by simp_all
  from allocator_restart_recovery
         [where runtimes = ?rts and prange = "\<lparr>Base = 20000, Size = 4\<rparr>" and policyStr = "''bitmap''"
            and reserved = "[20002]" and ?a0.0 = ?a0 and p = 20000 and ops = ?ops
            and env = demo_env and fl = default_flags]
       s rec norel st
  have "20000 \<notin> granted_ports (fst (run ?a0 ?ops))"
    and "allocator (handle demo_env default_flags) \<noteq> None"
    by auto
  with s ev st show ?thesis by blast
qed

section \<open>Properties of handle\<close>

lemma handle_controller_options:
  assumes "ReconcilerSetup opts \<in> set (trace (handle env fl))"
  shows "\<exists>d m. ParseDuration env (controllerWorkqueueDefaultSyncBackoffStr fl) = Inr d \<and>
           ParseDuration env (controllerWorkqueueMaxSyncBackoffStr fl) = Inr m \<and>
           opts = \<lparr>MaxConcurrentReconciles = maxConcurrentReconciles fl,
                   RateLimiter = NewFluidControllerRateLimiter d m
                      (controllerWorkqueueQPS fl) (controllerWorkqueueBurst fl)\<rparr>"
  using assms
  by (auto simp: handle_def Let_def os_Exit_def split: option.splits sum.splits)

lemma handle_registers_reconciler:
  assumes "GetConfigOrDieWithQPSAndBurst env (kubeClientQPS fl) (kubeClientBurst fl) = Some cfg"
    and "NewManager env cfg
           \<lparr>MetricsBindAddress = metricsAddr fl, LeaderElection = enableLeaderElection fl,
            LeaderElectionNamespace = leaderElectionNamespace fl,
            LeaderElectionID = ''alluxio.data.fluid.io''\<rparr> = Inr mgr"
    and "ParseDuration env (controllerWorkqueueDefaultSyncBackoffStr fl) = Inr d"
    and "ParseDuration env (controllerWorkqueueMaxSyncBackoffStr fl) = Inr m"
  shows "ReconcilerSetup
           \<lparr>MaxConcurrentReconciles = maxConcurrentReconciles fl,
            RateLimiter = NewFluidControllerRateLimiter d m
               (controllerWorkqueueQPS fl) (controllerWorkqueueBurst fl)\<rparr>
           \<in> set (trace (handle env fl))"
  using assms
  by (auto simp: handle_def Let_def os_Exit_def split: option.splits sum.splits)

lemma handle_exit_before_start:
  assumes "isl (ParseDuration env (controllerWorkqueueDefaultSyncBackoffStr fl)) \<or>
           isl (ParseDuration env (controllerWorkqueueMaxSyncBackoffStr fl)) \<or>
           isl (ParsePortRange env (portRange fl))"
  shows "exit_status (handle env fl) = Some 1 \<and> ManagerStart \<notin> set (trace (handle env fl))"
  using assms
  by (auto simp: handle_def Let_def os_Exit_def split: option.splits sum.splits)

lemma handle_no_allocator:
  assumes "isl (ParsePortRange env (portRange fl))"
  shows "allocator (handle env fl) = None \<and>
         (\<forall>pr pol. PortAllocatorSetup pr pol \<notin> set (trace (handle env fl)))"
  using assms
  by (auto simp: handle_def Let_def os_Exit_def split: option.splits sum.splits)

lemma handle_setup_outcome:
  assumes "GetConfigOrDieWithQPSAndBurst env (kubeClientQPS fl) (kubeClientBurst fl) = Some cfg"
    and "NewManager env cfg
           \<lparr>MetricsBindAddress = metricsAddr fl, LeaderElection = enableLeaderElection fl,
            LeaderElectionNamespace = leaderElectionNamespace fl,
            LeaderElectionID = ''alluxio.data.fluid.io''\<rparr> = Inr mgr"
    and "ParseDuration env (controllerWorkqueueDefaultSyncBackoffStr fl) = Inr d"
    and "ParseDuration env (controllerWorkqueueMaxSyncBackoffStr fl) = Inr m"
  shows "(\<forall>err. SetupWithManager env mgr
             \<lparr>MaxConcurrentReconciles = maxConcurrentReconciles fl,
              RateLimiter = NewFluidControllerRateLimiter d m
                 (controllerWorkqueueQPS fl) (controllerWorkqueueBurst fl)\<rparr> = Some err \<longrightarrow>
            exit_status (handle env fl) = Some 1 \<and>
            ErrorLogged ''unable to create controller'' \<in> set (trace (handle env fl)) \<and>
            ManagerStart \<notin> set (trace (handle env fl))) \<and>
         (SetupWithManager env mgr
             \<lparr>MaxConcurrentReconciles = maxConcurrentReconciles fl,
              RateLimiter = NewFluidControllerRateLimiter d m
                 (controllerWorkqueueQPS fl) (controllerWorkqueueBurst fl)\<rparr> = None \<longrightarrow>
            ErrorLogged ''unable to create controller'' \<notin> set (trace (handle env fl)))"
  using assms
  by (auto simp: handle_def Let_def os_Exit_def split: option.splits sum.splits)

lemma handle_setup_argument:
  assumes "GetConfigOrDieWithQPSAndBurst env (kubeClientQPS fl) (kubeClientBurst fl) = Some cfg"
    and "NewManager env cfg
           \<lparr>MetricsBindAddress = metricsAddr fl, LeaderElection = enableLeaderElection fl,
            LeaderElectionNamespace = leaderElectionNamespace fl,
            LeaderElectionID = ''alluxio.data.fluid.io''\<rparr> = Inr mgr"
    and "ParseDuration env (controllerWorkqueueDefaultSyncBackoffStr fl) = Inr d"
    and "ParseDuration env (controllerWorkqueueMaxSyncBackoffStr fl) = Inr m"
    and "S mgr \<lparr>MaxConcurrentReconciles = maxConcurrentReconciles fl,
              RateLimiter = NewFluidControllerRateLimiter d m
                 (controllerWorkqueueQPS fl) (controllerWorkqueueBurst fl)\<rparr>
         = SetupWithManager env mgr
             \<lparr>MaxConcurrentReconciles = maxConcurrentReconciles fl,
              RateLimiter = NewFluidControllerRateLimiter d m
                 (controllerWorkqueueQPS fl) (controllerWorkqueueBurst fl)\<rparr>"
  shows "handle (env\<lparr>SetupWithManager := S\<rparr>) fl = handle env fl"
  using assms
  by (simp add: handle_def Let_def cong: option.case_cong sum.case_cong)

lemma bind_flags_scheduler_fields:
  "maxConcurrentReconciles (bind_flags fs) = int_flag fs ''runtime-workers''"
  "controllerWorkqueueDefaultSyncBackoffStr (bind_flags fs)
     = string_flag fs ''workqueue-default-sync-backoff''"
  "controllerWorkqueueMaxSyncBackoffStr (bind_flags fs)
     = string_flag fs ''workqueue-max-sync-backoff''"
  "controllerWorkqueueQPS (bind_flags fs) = int_flag fs ''workqueue-qps''"
  "controllerWorkqueueBurst (bind_flags fs) = int_flag fs ''workqueue-burst''"
  "portRange (bind_flags fs) = string_flag fs ''runtime-node-port-range''"
  by (simp_all add: bind_flags_def)

text \<open>An environment whose registration of the reconciler accepts one value of the
  controller options only: 3 workers and the limiter of \<^verbatim>\<open>5ms\<close>, \<^verbatim>\<open>1000s\<close>, rate 10 and
  burst 100. Whatever else \<^verbatim>\<open>handle\<close> would pass makes the registration fail.\<close>

definition strict_env :: "(unit, unit) environment" where
  "strict_env =
     demo_env\<lparr>SetupWithManager :=
       (\<lambda>mgr opts.
          if opts = \<lparr>MaxConcurrentReconciles = 3,
                     RateLimiter = NewFluidControllerRateLimiter 5000000 1000000000000 10 100\<rparr>
          then None else Some ''unexpected controller options'')\<rparr>"

text \<open>
  C7. The flags \<^verbatim>\<open>runtime-workers\<close>, \<^verbatim>\<open>workqueue-default-sync-backoff\<close>,
  \<^verbatim>\<open>workqueue-max-sync-backoff\<close>, \<^verbatim>\<open>workqueue-qps\<close> and \<^verbatim>\<open>workqueue-burst\<close> default to 3,
  \<^verbatim>\<open>5ms\<close>, \<^verbatim>\<open>1000s\<close>, 10 and 100. For every flag set and every environment, once the
  config, the manager and the two durations are there, the reconciler is registered with
  the controller options made of exactly the worker count of the flag and the rate limiter
  built from the two parsed durations and the rate and burst of the flags, unchanged: it
  is the registration's answer at these options that decides whether \<^verbatim>\<open>handle\<close> exits
  with ``unable to create controller'' or goes on, and its answer at any other options
  changes nothing of what \<^verbatim>\<open>handle\<close> does (\<open>S\<close> is any other registration function that
  answers the same at these options). The registration step recorded in the trace
  carries the same options, and no others are ever recorded.
\<close>

theorem handle_passes_scheduler_knobs:
  "int_flag init ''runtime-workers'' = 3 \<and>
   string_flag init ''workqueue-default-sync-backoff'' = ''5ms'' \<and>
   string_flag init ''workqueue-max-sync-backoff'' = ''1000s'' \<and>
   int_flag init ''workqueue-qps'' = 10 \<and>
   int_flag init ''workqueue-burst'' = 100 \<and>
   (\<forall>opts. ReconcilerSetup opts \<in> set (trace (handle env (bind_flags fs))) \<longrightarrow>
      (\<exists>d m. ParseDuration env (string_flag fs ''workqueue-default-sync-backoff'') = Inr d \<and>
             ParseDuration env (string_flag fs ''workqueue-max-sync-backoff'') = Inr m \<and>
             MaxConcurrentReconciles opts = int_flag fs ''runtime-workers'' \<and>
             RateLimiter opts = NewFluidControllerRateLimiter d m
                (int_flag fs ''workqueue-qps'') (int_flag fs ''workqueue-burst'') \<and>
             baseDelay (RateLimiter opts) = d \<and>
             maxDelay (RateLimiter opts) = m \<and>
             qps (RateLimiter opts) = int_flag fs ''workqueue-qps'' \<and>
             burst (RateLimiter opts) = int_flag fs ''workqueue-burst'')) \<and>
   (\<forall>cfg mgr d m.
      GetConfigOrDieWithQPSAndBurst env (kubeClientQPS (bind_flags fs))
        (kubeClientBurst (bind_flags fs)) = Some cfg \<and>
      NewManager env cfg
        \<lparr>MetricsBindAddress = metricsAddr (bind_flags fs),
         LeaderElection = enableLeaderElection (bind_flags fs),
         LeaderElectionNamespace = leaderElectionNamespace (bind_flags fs),
         LeaderElectionID = ''alluxio.data.fluid.io''\<rparr> = Inr mgr \<and>
      ParseDuration env (string_flag fs ''workqueue-default-sync-backoff'') = Inr d \<and>
      ParseDuration env (string_flag fs ''workqueue-max-sync-backoff'') = Inr m \<longrightarrow>
      ReconcilerSetup
        \<lparr>MaxConcurrentReconciles = int_flag fs ''runtime-workers'',
         RateLimiter = NewFluidControllerRateLimiter d m
            (int_flag fs ''workqueue-qps'') (int_flag fs ''workqueue-burst'')\<rparr>
        \<in> set (trace (handle env (bind_flags fs))) \<and>
      (\<forall>err.
         SetupWithManager env mgr
           \<lparr>MaxConcurrentReconciles = int_flag fs ''runtime-workers'',
            RateLimiter = NewFluidControllerRateLimiter d m
               (int_flag fs ''workqueue-qps'') (int_flag fs ''workqueue-burst'')\<rparr> = Some err \<longrightarrow>
         exit_status (handle env (bind_flags fs)) = Some 1 \<and>
         ErrorLogged ''unable to create controller'' \<in> set (trace (handle env (bind_flags fs))) \<and>
         ManagerStart \<notin> set (trace (handle env (bind_flags fs)))) \<and>
      (SetupWithManager env mgr
           \<lparr>MaxConcurrentReconciles = int_flag fs ''runtime-workers'',
            RateLimiter = NewFluidControllerRateLimiter d m
               (int_flag fs ''workqueue-qps'') (int_flag fs ''workqueue-burst'')\<rparr> = None \<longrightarrow>
         ErrorLogged ''unable to create controller''
           \<notin> set (trace (handle env (bind_flags fs)))) \<and>
      (S mgr
           \<lparr>MaxConcurrentReconciles = int_flag fs ''runtime-workers'',
            RateLimiter = NewFluidControllerRateLimiter d m
               (int_flag fs ''workqueue-qps'') (int_flag fs ''workqueue-burst'')\<rparr>
         = SetupWithManager env mgr
           \<lparr>MaxConcurrentReconciles = int_flag fs ''runtime-workers'',
            RateLimiter = NewFluidControllerRateLimiter d m
               (int_flag fs ''workqueue-qps'') (int_flag fs ''workqueue-burst'')\<rparr> \<longrightarrow>
         handle (env\<lparr>SetupWithManager := S\<rparr>) (bind_flags fs) = handle env (bind_flags fs)))"
proof -
  have dflt: "int_flag init ''runtime-workers'' = 3 \<and>
      string_flag init ''workqueue-default-sync-backoff'' = ''5ms'' \<and>
      string_flag init ''workqueue-max-sync-backoff'' = ''1000s'' \<and>
      int_flag init ''workqueue-qps'' = 10 \<and>
      int_flag init ''workqueue-burst'' = 100"
    by (simp add: init_def int_flag_def string_flag_def)
  have passed: "\<exists>d m. ParseDuration env (string_flag fs ''workqueue-default-sync-backoff'') = Inr d \<and>
             ParseDuration env (string_flag fs ''workqueue-max-sync-backoff'') = Inr m \<and>
             MaxConcurrentReconciles opts = int_flag fs ''runtime-workers'' \<and>
             RateLimiter opts = NewFluidControllerRateLimiter d m
                (int_flag fs ''workqueue-qps'') (int_flag fs ''workqueue-burst'') \<and>
             baseDelay (RateLimiter opts) = d \<and>
             maxDelay (RateLimiter opts) = m \<and>
             qps (RateLimiter opts) = int_flag fs ''workqueue-qps'' \<and>
             burst (RateLimiter opts) = int_flag fs ''workqueue-burst''"
    if "ReconcilerSetup opts \<in> set (trace (handle env (bind_flags fs)))" for opts
  proof -
    from handle_controller_options [OF that] obtain d m where
      d: "ParseDuration env (string_flag fs ''workqueue-default-sync-backoff'') = Inr d" and
      m: "ParseDuration env (string_flag fs ''workqueue-max-sync-backoff'') = Inr m" and
      o: "opts = \<lparr>MaxConcurrentReconciles = int_flag fs ''runtime-workers'',
                  RateLimiter = NewFluidControllerRateLimiter d m
                     (int_flag fs ''workqueue-qps'') (int_flag fs ''workqueue-burst'')\<rparr>"
      by (auto simp: bind_flags_scheduler_fields)
    from o have "MaxConcurrentReconciles opts = int_flag fs ''runtime-workers''"
      and "RateLimiter opts = NewFluidControllerRateLimiter d m
             (int_flag fs ''workqueue-qps'') (int_flag fs ''workqueue-burst'')"
      by simp_all
    moreover from this have "baseDelay (RateLimiter opts) = d" "maxDelay (RateLimiter opts) = m"
      "qps (RateLimiter opts) = int_flag fs ''workqueue-qps''"
      "burst (RateLimiter opts) = int_flag fs ''workqueue-burst''"
      by (simp_all add: NewFluidControllerRateLimiter_def)
    ultimately show ?thesis using d m by blast
  qed
  have reg: "ReconcilerSetup
        \<lparr>MaxConcurrentReconciles = int_flag fs ''runtime-workers'',
         RateLimiter = NewFluidControllerRateLimiter d m
            (int_flag fs ''workqueue-qps'') (int_flag fs ''workqueue-burst'')\<rparr>
        \<in> set (trace (handle env (bind_flags fs))) \<and>
      (\<forall>err.
         SetupWithManager env mgr
           \<lparr>MaxConcurrentReconciles = int_flag fs ''runtime-workers'',
            RateLimiter = NewFluidControllerRateLimiter d m
               (int_flag fs ''workqueue-qps'') (int_flag fs ''workqueue-burst'')\<rparr> = Some err \<longrightarrow>
         exit_status (handle env (bind_flags fs)) = Some 1 \<and>
         ErrorLogged ''unable to create controller'' \<in> set (trace (handle env (bind_flags fs))) \<and>
         ManagerStart \<notin> set (trace (handle env (bind_flags fs)))) \<and>
      (SetupWithManager env mgr
           \<lparr>MaxConcurrentReconciles = int_flag fs ''runtime-workers'',
            RateLimiter = NewFluidControllerRateLimiter d m
               (int_flag fs ''workqueue-qps'') (int_flag fs ''workqueue-burst'')\<rparr> = None \<longrightarrow>
         ErrorLogged ''unable to create controller''
           \<notin> set (trace (handle env (bind_flags fs)))) \<and>
      (S mgr
           \<lparr>MaxConcurrentReconciles = int_flag fs ''runtime-workers'',
            RateLimiter = NewFluidControllerRateLimiter d m
               (int_flag fs ''workqueue-qps'') (int_flag fs ''workqueue-burst'')\<rparr>
         = SetupWithManager env mgr
           \<lparr>MaxConcurrentReconciles = int_flag fs ''runtime-workers'',
            RateLimiter = NewFluidControllerRateLimiter d m
               (int_flag fs ''workqueue-qps'') (int_flag fs ''workqueue-burst'')\<rparr> \<longrightarrow>
         handle (env\<lparr>SetupWithManager := S\<rparr>) (bind_flags fs) = handle env (bind_flags fs))"
    if c: "GetConfigOrDieWithQPSAndBurst env (kubeClientQPS (bind_flags fs))
          (kubeClientBurst (bind_flags fs)) = Some cfg"
      and n: "NewManager env cfg
        \<lparr>MetricsBindAddress = metricsAddr (bind_flags fs),
         LeaderElection = enableLeaderElection (bind_flags fs),
         LeaderElectionNamespace = leaderElectionNamespace (bind_flags fs),
         LeaderElectionID = ''alluxio.data.fluid.io''\<rparr> = Inr mgr"
      and d: "ParseDuration env (string_flag fs ''workqueue-default-sync-backoff'') = Inr d"
      and m: "ParseDuration env (string_flag fs ''workqueue-max-sync-backoff'') = Inr m"
    for cfg mgr d m
  proof -
    from d m
    have d': "ParseDuration env (controllerWorkqueueDefaultSyncBackoffStr (bind_flags fs)) = Inr d"
      and m': "ParseDuration env (controllerWorkqueueMaxSyncBackoffStr (bind_flags fs)) = Inr m"
      by (simp_all only: bind_flags_scheduler_fields)
    note r = handle_registers_reconciler [OF c n d' m', unfolded bind_flags_scheduler_fields]
    note o = handle_setup_outcome [OF c n d' m', unfolded bind_flags_scheduler_fields]
    have a: "handle (env\<lparr>SetupWithManager := S\<rparr>) (bind_flags fs) = handle env (bind_flags fs)"
      if "S mgr
           \<lparr>MaxConcurrentReconciles = int_flag fs ''runtime-workers'',
            RateLimiter = NewFluidControllerRateLimiter d m
               (int_flag fs ''workqueue-qps'') (int_flag fs ''workqueue-burst'')\<rparr>
         = SetupWithManager env mgr
           \<lparr>MaxConcurrentReconciles = int_flag fs ''runtime-workers'',
            RateLimiter = NewFluidControllerRateLimiter d m
               (int_flag fs ''workqueue-qps'') (int_flag fs ''workqueue-burst'')\<rparr>"
      using handle_setup_argument [OF c n d' m', of S] that
      by (simp only: bind_flags_scheduler_fields)
    from r o a show ?thesis by blast
  qed
  from dflt passed reg show ?thesis by blast
qed

theorem handle_passes_scheduler_knobs_witness:
  "ReconcilerSetup
     \<lparr>MaxConcurrentReconciles = 3,
      RateLimiter = NewFluidControllerRateLimiter 5000000 1000000000000 10 100\<rparr>
     \<in> set (trace (handle strict_env (bind_flags init))) \<and>
   ErrorLogged ''unable to create controller''
     \<notin> set (trace (handle strict_env (bind_flags init))) \<and>
   handle strict_env (bind_flags init) = handle demo_env (bind_flags init)"
proof -
  let ?expected = "\<lparr>MaxConcurrentReconciles = 3,
      RateLimiter = NewFluidControllerRateLimiter 5000000 1000000000000 10 100\<rparr>"
  let ?S = "\<lambda>(mgr::unit) opts.
              if opts = ?expected then None else Some ''unexpected controller options''"
  have v: "int_flag init ''runtime-workers'' = 3"
      "string_flag init ''workqueue-default-sync-backoff'' = ''5ms''"
      "string_flag init ''workqueue-max-sync-backoff'' = ''1000s''"
      "int_flag init ''workqueue-qps'' = 10"
      "int_flag init ''workqueue-burst'' = 100"
    by (simp_all add: init_def int_flag_def string_flag_def)
  have s: "strict_env = demo_env\<lparr>SetupWithManager := ?S\<rparr>"
    by (simp add: strict_env_def)
  have g: "GetConfigOrDieWithQPSAndBurst strict_env (kubeClientQPS (bind_flags init))
             (kubeClientBurst (bind_flags init)) = Some ()"
    and n: "NewManager strict_env ()
              \<lparr>MetricsBindAddress = metricsAddr (bind_flags init),
               LeaderElection = enableLeaderElection (bind_flags init),
               LeaderElectionNamespace = leaderElectionNamespace (bind_flags init),
               LeaderElectionID = ''alluxio.data.fluid.io''\<rparr> = Inr ()"
    and d: "ParseDuration strict_env (string_flag init ''workqueue-default-sync-backoff'')
              = Inr 5000000"
    and m: "ParseDuration strict_env (string_flag init ''workqueue-max-sync-backoff'')
              = Inr 1000000000000"
    and ok: "SetupWithManager strict_env () ?expected = None"
    by (simp_all add: strict_env_def demo_env_def v)
  have g': "GetConfigOrDieWithQPSAndBurst demo_env (kubeClientQPS (bind_flags init))
             (kubeClientBurst (bind_flags init)) = Some ()"
    and n': "NewManager demo_env ()
              \<lparr>MetricsBindAddress = metricsAddr (bind_flags init),
               LeaderElection = enableLeaderElection (bind_flags init),
               LeaderElectionNamespace = leaderElectionNamespace (bind_flags init),
               LeaderElectionID = ''alluxio.data.fluid.io''\<rparr> = Inr ()"
    and d': "ParseDuration demo_env (string_flag init ''workqueue-default-sync-backoff'')
              = Inr 5000000"
    and m': "ParseDuration demo_env (string_flag init ''workqueue-max-sync-backoff'')
              = Inr 1000000000000"
    and ok': "?S () ?expected = SetupWithManager demo_env () ?expected"
    by (simp_all add: demo_env_def v)
  from handle_passes_scheduler_knobs [where env = strict_env and fs = init and S = ?S, unfolded v]
       g n d m ok
  have a: "ReconcilerSetup ?expected \<in> set (trace (handle strict_env (bind_flags init)))"
    and b: "ErrorLogged ''unable to create controller''
              \<notin> set (trace (handle strict_env (bind_flags init)))"
    unfolding v by blast+
  from handle_passes_scheduler_knobs [where env = demo_env and fs = init and S = ?S, unfolded v]
       g' n' d' m' ok'
  have "handle (demo_env\<lparr>SetupWithManager := ?S\<rparr>) (bind_flags init)
          = handle demo_env (bind_flags init)"
    unfolding v by blast
  then have c: "handle strict_env (bind_flags init) = handle demo_env (bind_flags init)"
    by (simp only: s)
  from a b c show ?thesis by blast
qed

text \<open>
  C10. For every flag set: if the value of \<^verbatim>\<open>workqueue-default-sync-backoff\<close> or of
  \<^verbatim>\<open>workqueue-max-sync-backoff\<close> does not parse as a duration, or that of
  \<^verbatim>\<open>runtime-node-port-range\<close> does not parse as a port range, \<^verbatim>\<open>handle\<close> ends in
  \<^verbatim>\<open>os.Exit(1)\<close> and the manager is never started, so no reconciler runs; when it is the
  port range that does not parse, the port allocator is never set up.
\<close>

theorem handle_exits_on_bad_flags:
  "(isl (ParseDuration env (string_flag fs ''workqueue-default-sync-backoff'')) \<or>
    isl (ParseDuration env (string_flag fs ''workqueue-max-sync-backoff'')) \<or>
    isl (ParsePortRange env (string_flag fs ''runtime-node-port-range'')) \<longrightarrow>
      exit_status (handle env (bind_flags fs)) = Some 1 \<and>
      ManagerStart \<notin> set (trace (handle env (bind_flags fs)))) \<and>
   (isl (ParsePortRange env (string_flag fs ''runtime-node-port-range'')) \<longrightarrow>
      allocator (handle env (bind_flags fs)) = None \<and>
      (\<forall>pr pol. PortAllocatorSetup pr pol \<notin> set (trace (handle env (bind_flags fs)))))"
proof (intro conjI impI)
  assume "isl (ParseDuration env (string_flag fs ''workqueue-default-sync-backoff'')) \<or>
    isl (ParseDuration env (string_flag fs ''workqueue-max-sync-backoff'')) \<or>
    isl (ParsePortRange env (string_flag fs ''runtime-node-port-range''))"
  then have bad: "isl (ParseDuration env (controllerWorkqueueDefaultSyncBackoffStr (bind_flags fs))) \<or>
           isl (ParseDuration env (controllerWorkqueueMaxSyncBackoffStr (bind_flags fs))) \<or>
           isl (ParsePortRange env (portRange (bind_flags fs)))"
    by (simp only: bind_flags_scheduler_fields)
  from handle_exit_before_start [OF bad]
  show "exit_status (handle env (bind_flags fs)) = Some 1"
    and "ManagerStart \<notin> set (trace (handle env (bind_flags fs)))"
    by simp_all
next
  assume "isl (ParsePortRange env (string_flag fs ''runtime-node-port-range''))"
  then have bad: "isl (ParsePortRange env (portRange (bind_flags fs)))"
    by (simp only: bind_flags_scheduler_fields)
  from handle_no_allocator [OF bad]
  show "allocator (handle env (bind_flags fs)) = None"
    and "\<forall>pr pol. PortAllocatorSetup pr pol \<notin> set (trace (handle env (bind_flags fs)))"
    by simp_all
qed

theorem handle_exits_on_bad_flags_witness:
  "exit_status (handle demo_env
      (bind_flags ((''workqueue-max-sync-backoff'', StringVal ''10 seconds'') # init))) = Some 1 \<and>
   ManagerStart \<notin> set (trace (handle demo_env
      (bind_flags ((''workqueue-max-sync-backoff'', StringVal ''10 seconds'') # init)))) \<and>
   exit_status (handle demo_env
      (bind_flags ((''runtime-node-port-range'', StringVal ''20000'') # init))) = Some 1 \<and>
   allocator (handle demo_env
      (bind_flags ((''runtime-node-port-range'', StringVal ''20000'') # init))) = None"
proof -
  have a: "isl (ParseDuration demo_env
             (string_flag ((''workqueue-max-sync-backoff'', StringVal ''10 seconds'') # init)
                ''workqueue-max-sync-backoff''))"
    by (simp add: demo_env_def string_flag_def)
  have b: "isl (ParsePortRange demo_env
             (string_flag ((''runtime-node-port-range'', StringVal ''20000'') # init)
                ''runtime-node-port-range''))"
    by (simp add: demo_env_def string_flag_def)
  from handle_exits_on_bad_flags
         [of demo_env "(''workqueue-max-sync-backoff'', StringVal ''10 seconds'') # init"]
       handle_exits_on_bad_flags
         [of demo_env "(''runtime-node-port-range'', StringVal ''20000'') # init"]
       a b
  show ?thesis by blast
qed

end
